theory Spec2Isabelle
  imports Main
begin

section \<open>Configuration bootstrap of the chat service (pkg/common/cmd/root.go)\<close>

text \<open>
  The embedding follows \<^verbatim>\<open>root.go\<close> function by function. A Go function that returns
  \<^verbatim>\<open>error\<close> returns an \<open>error option\<close> here (\<open>None\<close> is \<^verbatim>\<open>nil\<close>); a function that may
  dereference a nil pointer or index an empty slice returns an \<open>exit\<close>, whose \<open>Panic\<close> is
  the Go panic. Everything outside the file (the etcd store, the JSON codec, the local
  loader, the flags, the logger) is either a field of the record \<open>env\<close> or part of the
  record \<open>world\<close>, which is threaded through the calls and records each request sent to
  the store and each warning written.
\<close>

subsection \<open>Errors\<close>

text \<open>
  The values built by package \<^verbatim>\<open>errs\<close>: \<open>Lib\<close> is an error handed back by a library call
  (its message), \<open>New\<close> is \<^verbatim>\<open>errs.New\<close>, \<open>ErrArgs\<close> is \<^verbatim>\<open>errs.ErrArgs.WithDetail\<close>,
  \<open>Wrap\<close> and \<open>WrapMsg\<close> are \<^verbatim>\<open>errs.Wrap\<close> and \<^verbatim>\<open>errs.WrapMsg\<close> of a non-nil error.
\<close>

datatype error =
    Lib string
  | New string
  | ErrArgs string
  | Wrap error
  | WrapMsg error string

datatype 'a exit = Return 'a | Panic

text \<open>\<^verbatim>\<open>errs.Wrap(err)\<close> where \<^verbatim>\<open>err\<close> may be nil: nil stays nil.\<close>

definition errs_Wrap :: "error option \<Rightarrow> error option" where
  "errs_Wrap e = (case e of None \<Rightarrow> None | Some err \<Rightarrow> Some (Wrap err))"

subsection \<open>The coordination store and the warning log\<close>

text \<open>
  The etcd client of the source is a handle on a store shared by the fleet. The store is
  modelled by its contents \<open>kvs\<close> and by a schedule \<open>unavailable\<close>: the request issued when
  \<open>n\<close> events have been recorded fails (connection, timeout) iff \<open>unavailable n\<close>. A failed
  request leaves the contents as they were. \<open>trace\<close> records, in order, every request
  sent through the client and every call of \<^verbatim>\<open>log.ZWarn\<close>.
\<close>

datatype event =
    EtcdGet string
  | EtcdPut string string
  | EtcdClose
  | ZWarn string error

record world =
  kvs :: "string \<rightharpoonup> string"
  unavailable :: "nat \<Rightarrow> bool"
  close_fails :: bool
  trace :: "event list"

record KeyValue =
  Key :: string
  Value :: string

record GetResponse =
  Kvs :: "KeyValue list"
  Count :: int

datatype Client = Client

definition record_event :: "world \<Rightarrow> event \<Rightarrow> world" where
  "record_event w e = w\<lparr>trace := trace w @ [e]\<rparr>"

text \<open>\<^verbatim>\<open>log.ZWarn(ctx, msg, err)\<close>.\<close>

definition log_ZWarn :: "world \<Rightarrow> string \<Rightarrow> error \<Rightarrow> world" where
  "log_ZWarn w msg err = record_event w (ZWarn msg err)"

text \<open>
  \<^verbatim>\<open>client.Get(ctx, key)\<close> for a single key: an error, or a response whose \<^verbatim>\<open>Count\<close> is
  the number of records in \<^verbatim>\<open>Kvs\<close> (none or one).
\<close>

definition etcd_Get :: "world \<Rightarrow> string \<Rightarrow> (error + GetResponse) \<times> world" where
  "etcd_Get w key =
     (if unavailable w (length (trace w))
      then (Inl (Lib ''etcd: get failed''), record_event w (EtcdGet key))
      else (Inr (case kvs w key of
                   None \<Rightarrow> \<lparr>Kvs = [], Count = 0\<rparr>
                 | Some v \<Rightarrow> \<lparr>Kvs = [\<lparr>Key = key, Value = v\<rparr>], Count = 1\<rparr>),
            record_event w (EtcdGet key)))"

text \<open>\<^verbatim>\<open>client.Put(ctx, key, val)\<close>: the response is dropped by the source, the error kept.\<close>

definition etcd_Put :: "world \<Rightarrow> string \<Rightarrow> string \<Rightarrow> error option \<times> world" where
  "etcd_Put w key val =
     (if unavailable w (length (trace w))
      then (Some (Lib ''etcd: put failed''), record_event w (EtcdPut key val))
      else (None, (record_event w (EtcdPut key val))\<lparr>kvs := (kvs w)(key \<mapsto> val)\<rparr>))"

text \<open>
  \<^verbatim>\<open>client.Close()\<close> through the pointer held by the root command. The method reads the
  fields of its receiver, so a call through a nil pointer panics.
\<close>

definition etcd_Close :: "world \<Rightarrow> Client option \<Rightarrow> (error option \<times> world) exit" where
  "etcd_Close w c =
     (case c of
        None \<Rightarrow> Panic
      | Some _ \<Rightarrow>
          Return (if close_fails w then Some (Lib ''etcd: close failed'') else None,
                  record_event w EtcdClose))"

subsection \<open>The root command, its options and its collaborators\<close>

text \<open>
  \<open>'v\<close> is the type of a configuration structure (\<^verbatim>\<open>any\<close> in the source, \<^verbatim>\<open>config.Log\<close> for
  the logging entry). The structures the config map points to are distinct objects, so
  the map is a list of (file name, structure) pairs in the order in which \<^verbatim>\<open>range\<close> visits
  them; the theorems hold for every such order.
\<close>

record 'v RootCmd =
  processName :: string
  port :: int
  prometheusPort :: int
  log :: 'v
  index :: int
  configPath :: string
  etcdClient :: "Client option"

record 'v CmdOpts =
  loggerPrefixName :: string
  configMap :: "(string \<times> 'v) list"

record Discovery =
  Enable :: string

text \<open>What \<^verbatim>\<open>kdisc.NewDiscoveryRegister\<close> hands back as an interface value.\<close>

datatype discovery =
    SvcDiscoveryRegistryImpl "Client option"
  | OtherRegistry
  | NilRegistry

text \<open>
  The collaborators of the file. \<open>BuildKey\<close>, \<open>EnableConfigCenterKey\<close> (package
  \<^verbatim>\<open>kdisc/etcd\<close>), \<open>ETCDCONST\<close> (package \<^verbatim>\<open>kdisc\<close>) and \<open>LogConfigFileName\<close> (package
  \<^verbatim>\<open>config\<close>) are declared outside the file and are parameters here. \<open>Marshal\<close> and
  \<open>Unmarshal\<close> are \<^verbatim>\<open>json.Marshal\<close> and \<^verbatim>\<open>json.Unmarshal\<close>: the latter writes into the
  structure it is given and returns the structure as it left it together with its
  error. \<open>Load\<close> is \<^verbatim>\<open>config.Load\<close> for a directory, a file name and the structure to fill;
  \<open>LoadDiscovery\<close> is the same call for the discovery file. \<open>flag_conf\<close> and \<open>flag_index\<close>
  are the two flag lookups on the cobra command.
\<close>

record 'v env =
  BuildKey :: "string \<Rightarrow> string"
  EnableConfigCenterKey :: string
  ETCDCONST :: string
  LogConfigFileName :: string
  flag_conf :: "string + string"
  flag_index :: "string + int"
  Load :: "string \<Rightarrow> string \<Rightarrow> 'v \<Rightarrow> 'v \<times> string option"
  LoadDiscovery :: "string \<Rightarrow> Discovery \<times> string option"
  NewDiscoveryRegister :: "Discovery \<Rightarrow> discovery"
  Marshal :: "'v \<Rightarrow> string + string"
  Unmarshal :: "string \<Rightarrow> 'v \<Rightarrow> 'v \<times> string option"
  InitLoggerFromConfig :: "string \<Rightarrow> string \<Rightarrow> 'v \<Rightarrow> string option"
  InitConsoleLogger :: "string \<Rightarrow> 'v \<Rightarrow> string option"

text \<open>
  Modelled from the spec: the constants \<^verbatim>\<open>Enable\<close> and \<^verbatim>\<open>Disable\<close> of package
  \<^verbatim>\<open>kdisc/etcd\<close>, which is not among the sources; the control key holds the literal
  "enable" or "disable".
\<close>

definition disetcd_Enable :: string where
  "disetcd_Enable = ''enable''"

definition disetcd_Disable :: string where
  "disetcd_Disable = ''disable''"

subsection \<open>Options\<close>

definition WithLogName :: "string \<Rightarrow> 'v CmdOpts \<Rightarrow> 'v CmdOpts" where
  "WithLogName logName opts = opts\<lparr>loggerPrefixName := logName\<rparr>"

definition WithConfigMap :: "(string \<times> 'v) list \<Rightarrow> 'v CmdOpts \<Rightarrow> 'v CmdOpts" where
  "WithConfigMap cm opts = opts\<lparr>configMap := cm\<rparr>"

definition defaultCmdOpts :: "'v CmdOpts" where
  "defaultCmdOpts = \<lparr>loggerPrefixName = ''openim-chat-log'', configMap = []\<rparr>"

definition applyOptions :: "('v CmdOpts \<Rightarrow> 'v CmdOpts) list \<Rightarrow> 'v CmdOpts" where
  "applyOptions opts = fold (\<lambda>opt cmdOpts. opt cmdOpts) opts defaultCmdOpts"

subsection \<open>getFlag and initEtcd\<close>

definition getFlag :: "'v env \<Rightarrow> 'v RootCmd \<Rightarrow> (error + string \<times> int) \<times> 'v RootCmd" where
  "getFlag env r =
     (case flag_conf env of
        Inl err \<Rightarrow> (Inl (Wrap (Lib err)), r)
      | Inr configDirectory \<Rightarrow>
          (case flag_index env of
             Inl err \<Rightarrow> (Inl (Wrap (Lib err)), r)
           | Inr idx \<Rightarrow> (Inr (configDirectory, idx), r\<lparr>index := idx\<rparr>)))"

definition initEtcd :: "'v env \<Rightarrow> 'v RootCmd \<Rightarrow> (error option \<times> 'v RootCmd) exit" where
  "initEtcd env r =
     (case getFlag env r of
        (Inl err, r1) \<Rightarrow> Return (Some err, r1)
      | (Inr (configDirectory, _), r1) \<Rightarrow>
          (case LoadDiscovery env configDirectory of
             (_, Some err) \<Rightarrow> Return (Some (Lib err), r1)
           | (disConfig, None) \<Rightarrow>
               if Enable disConfig = ETCDCONST env
               then (case NewDiscoveryRegister env disConfig of
                       SvcDiscoveryRegistryImpl c \<Rightarrow> Return (None, r1\<lparr>etcdClient := c\<rparr>)
                     | _ \<Rightarrow> Panic)
               else Return (None, r1)))"

subsection \<open>initializeConfiguration\<close>

text \<open>The \<^verbatim>\<open>range\<close> loop over the config map: it stops at the first entry that fails to load.\<close>

fun load_range :: "'v env \<Rightarrow> string \<Rightarrow> (string \<times> 'v) list \<Rightarrow> error option \<times> (string \<times> 'v) list" where
  "load_range env dir [] = (None, [])"
| "load_range env dir ((configFileName, configStruct) # rest) =
     (case Load env dir configFileName configStruct of
        (s', Some err) \<Rightarrow> (Some (Lib err), (configFileName, s') # rest)
      | (s', None) \<Rightarrow>
          (case load_range env dir rest of
             (e, rest') \<Rightarrow> (e, (configFileName, s') # rest')))"

definition initializeConfiguration ::
    "'v env \<Rightarrow> 'v RootCmd \<Rightarrow> 'v CmdOpts \<Rightarrow> error option \<times> 'v RootCmd \<times> 'v CmdOpts" where
  "initializeConfiguration env r opts =
     (case getFlag env r of
        (Inl err, r1) \<Rightarrow> (Some err, r1, opts)
      | (Inr (configDirectory, _), r1) \<Rightarrow>
          (let r2 = r1\<lparr>configPath := configDirectory\<rparr> in
           case load_range env configDirectory (configMap opts) of
             (Some err, cm') \<Rightarrow> (Some err, r2, opts\<lparr>configMap := cm'\<rparr>)
           | (None, cm') \<Rightarrow>
               (case Load env configDirectory (LogConfigFileName env) (log r2) of
                  (lg', e) \<Rightarrow>
                    (map_option Lib e, r2\<lparr>log := lg'\<rparr>, opts\<lparr>configMap := cm'\<rparr>))))"

subsection \<open>updateConfigFromEtcd\<close>

text \<open>
  The closure \<^verbatim>\<open>update\<close>: one entry, given by its file name and its structure. It returns
  the error, the world after its requests and the structure as it leaves it.
\<close>

definition update ::
    "'v env \<Rightarrow> world \<Rightarrow> string \<Rightarrow> 'v \<Rightarrow> (error option \<times> world \<times> 'v) exit" where
  "update env w configFileName configStruct =
     (let key = BuildKey env configFileName in
      case etcd_Get w key of
        (Inl err, w1) \<Rightarrow>
          Return (None,
                  log_ZWarn w1 ''root cmd updateConfigFromEtcd, etcd Get err: %v'' (Wrap err),
                  configStruct)
      | (Inr etcdRes, w1) \<Rightarrow>
          if Count etcdRes = 0
          then (case Marshal env configStruct of
                  Inl err \<Rightarrow> Return (Some (Wrap (ErrArgs err)), w1, configStruct)
                | Inr data \<Rightarrow>
                    (case etcd_Put w1 (BuildKey env configFileName) data of
                       (Some err, w2) \<Rightarrow>
                         Return (None,
                                 log_ZWarn w2 ''root cmd updateConfigFromEtcd, etcd Put err: %v''
                                   (Wrap err),
                                 configStruct)
                     | (None, w2) \<Rightarrow> Return (None, w2, configStruct)))
          else (case Kvs etcdRes of
                  [] \<Rightarrow> Panic
                | kv # _ \<Rightarrow>
                    (case Unmarshal env (Value kv) configStruct of
                       (s', Some err) \<Rightarrow>
                         Return (Some (WrapMsg (Lib err) ''failed to unmarshal config from etcd''),
                                 w1, s')
                     | (s', None) \<Rightarrow> Return (None, w1, s'))))"

text \<open>
  The \<^verbatim>\<open>range\<close> loop over the config map: it stops at the first entry whose \<^verbatim>\<open>update\<close>
  returns an error, and the entries after it are left as they were.
\<close>

fun update_range ::
    "'v env \<Rightarrow> world \<Rightarrow> (string \<times> 'v) list \<Rightarrow> (error option \<times> world \<times> (string \<times> 'v) list) exit" where
  "update_range env w [] = Return (None, w, [])"
| "update_range env w ((configFileName, configStruct) # rest) =
     (case update env w configFileName configStruct of
        Panic \<Rightarrow> Panic
      | Return (Some err, w', s') \<Rightarrow> Return (Some err, w', (configFileName, s') # rest)
      | Return (None, w', s') \<Rightarrow>
          (case update_range env w' rest of
             Panic \<Rightarrow> Panic
           | Return (e, w'', rest') \<Rightarrow> Return (e, w'', (configFileName, s') # rest')))"

definition updateConfigFromEtcd ::
    "'v env \<Rightarrow> world \<Rightarrow> 'v RootCmd \<Rightarrow> 'v CmdOpts
       \<Rightarrow> (error option \<times> world \<times> 'v RootCmd \<times> 'v CmdOpts) exit" where
  "updateConfigFromEtcd env w r opts =
     (case etcdClient r of
        None \<Rightarrow> Return (None, w, r, opts)
      | Some _ \<Rightarrow>
          (case etcd_Get w (BuildKey env (EnableConfigCenterKey env)) of
             (Inl err, w1) \<Rightarrow>
               Return (None,
                       log_ZWarn w1
                         ''root cmd updateConfigFromEtcd, etcd Get EnableConfigCenterKey err: %v''
                         (Wrap err),
                       r, opts)
           | (Inr res, w1) \<Rightarrow>
               if Count res = 0 then Return (None, w1, r, opts)
               else (case Kvs res of
                       [] \<Rightarrow> Panic
                     | kv # _ \<Rightarrow>
                         if Value kv = disetcd_Disable then Return (None, w1, r, opts)
                         else if Value kv \<noteq> disetcd_Enable
                         then Return (Some (Wrap (New ''unknown EnableConfigCenter value'')),
                                      w1, r, opts)
                         else (case update_range env w1 (configMap opts) of
                                 Panic \<Rightarrow> Panic
                               | Return (Some err, w2, cm') \<Rightarrow>
                                   Return (Some err, w2, r, opts\<lparr>configMap := cm'\<rparr>)
                               | Return (None, w2, cm') \<Rightarrow>
                                   (case update env w2 (LogConfigFileName env) (log r) of
                                      Panic \<Rightarrow> Panic
                                    | Return (e, w3, lg') \<Rightarrow>
                                        Return (e, w3, r\<lparr>log := lg'\<rparr>,
                                                opts\<lparr>configMap := cm'\<rparr>))))))"

subsection \<open>initializeLogger and persistentPreRun\<close>

definition initializeLogger :: "'v env \<Rightarrow> 'v RootCmd \<Rightarrow> 'v CmdOpts \<Rightarrow> error option" where
  "initializeLogger env r cmdOpts =
     (case InitLoggerFromConfig env (loggerPrefixName cmdOpts) (processName r) (log r) of
        Some err \<Rightarrow> Some (Wrap (Lib err))
      | None \<Rightarrow> errs_Wrap (map_option Lib (InitConsoleLogger env (processName r) (log r))))"

definition persistentPreRun ::
    "'v env \<Rightarrow> world \<Rightarrow> 'v RootCmd \<Rightarrow> ('v CmdOpts \<Rightarrow> 'v CmdOpts) list
       \<Rightarrow> (error option \<times> world \<times> 'v RootCmd \<times> 'v CmdOpts) exit" where
  "persistentPreRun env w r opts =
     (case initEtcd env r of
        Panic \<Rightarrow> Panic
      | Return (Some err, r1) \<Rightarrow> Return (Some err, w, r1, applyOptions opts)
      | Return (None, r1) \<Rightarrow>
          (let cmdOpts = applyOptions opts in
           case initializeConfiguration env r1 cmdOpts of
             (Some err, r2, cmdOpts2) \<Rightarrow> Return (Some err, w, r2, cmdOpts2)
           | (None, r2, cmdOpts2) \<Rightarrow>
               (case updateConfigFromEtcd env w r2 cmdOpts2 of
                  Panic \<Rightarrow> Panic
                | Return (Some err, w3, r3, cmdOpts3) \<Rightarrow> Return (Some err, w3, r3, cmdOpts3)
                | Return (None, w3, r3, cmdOpts3) \<Rightarrow>
                    (case initializeLogger env r3 cmdOpts3 of
                       Some err \<Rightarrow>
                         Return (Some (WrapMsg err ''failed to initialize logger''),
                                 w3, r3, cmdOpts3)
                     | None \<Rightarrow>
                         (case etcd_Close w3 (etcdClient r3) of
                            Panic \<Rightarrow> Panic
                          | Return (Some err, w4) \<Rightarrow>
                              Return (Some (WrapMsg err ''failed to close etcd client''),
                                      w4, r3, cmdOpts3)
                          | Return (None, w4) \<Rightarrow> Return (None, w4, r3, cmdOpts3))))))"

subsection \<open>NewRootCmd\<close>

text \<open>
  \<^verbatim>\<open>&RootCmd{processName: processName}\<close>: every other field has its zero value, the client
  pointer is nil. \<open>zero\<close> is the zero value of \<^verbatim>\<open>config.Log\<close>; the cobra command, which only
  carries the flags and the hook calling \<open>persistentPreRun\<close>, is left out.
\<close>

definition NewRootCmd :: "'v \<Rightarrow> string \<Rightarrow> 'v RootCmd" where
  "NewRootCmd zero name =
     \<lparr>processName = name, port = 0, prometheusPort = 0, log = zero, index = 0,
      configPath = [], etcdClient = None\<rparr>"

section \<open>Notions used to state the properties\<close>

text \<open>
  The entries reconciliation works on: the entries of the config map, in the order of the
  loop, followed by the logging entry, which is processed last by the same closure.
\<close>

definition entries :: "'v env \<Rightarrow> 'v RootCmd \<Rightarrow> 'v CmdOpts \<Rightarrow> (string \<times> 'v) list" where
  "entries env r opts = configMap opts @ [(LogConfigFileName env, log r)]"

text \<open>The store key of the control record.\<close>

definition control_key :: "'v env \<Rightarrow> string" where
  "control_key env = BuildKey env (EnableConfigCenterKey env)"

text \<open>
  The mode is Enabled: there is a client, the store answers the request for the control
  key, and the record it holds is the literal "enable".
\<close>

definition mode_enabled :: "'v env \<Rightarrow> world \<Rightarrow> 'v RootCmd \<Rightarrow> bool" where
  "mode_enabled env w r \<longleftrightarrow>
     etcdClient r \<noteq> None \<and> \<not> unavailable w (length (trace w)) \<and>
     kvs w (control_key env) = Some disetcd_Enable"

text \<open>
  \<open>reach env w r opts k = Some (w1, before)\<close>: started in world \<open>w\<close>, reconciliation finds
  the mode Enabled and processes the entries before the \<open>k\<close>-th without returning an error;
  \<open>w1\<close> is the world in which the \<open>k\<close>-th entry is then processed and \<open>before\<close> are the
  earlier entries as they have been left.
\<close>

definition reach ::
    "'v env \<Rightarrow> world \<Rightarrow> 'v RootCmd \<Rightarrow> 'v CmdOpts \<Rightarrow> nat \<Rightarrow> (world \<times> (string \<times> 'v) list) option" where
  "reach env w r opts k =
     (if mode_enabled env w r
      then (case update_range env (record_event w (EtcdGet (control_key env)))
                   (take k (entries env r opts)) of
              Return (None, w1, before) \<Rightarrow> Some (w1, before)
            | _ \<Rightarrow> None)
      else None)"

text \<open>
  \<open>local_or_decoded env w' old new\<close>: the entry \<open>new\<close> has the name of \<open>old\<close>, and its
  structure is either the local structure of \<open>old\<close>, untouched, or what the decoder left
  when it decoded, without error, the bytes that the store \<open>w'\<close> holds under the entry's key
  into the local structure of \<open>old\<close>. The decoder writes into the structure it is given, so
  the second case may keep fields of the local structure: the predicate says that the
  decoder ran to its end on the stored bytes, not that the result is free of local fields.
\<close>

definition local_or_decoded :: "'v env \<Rightarrow> world \<Rightarrow> string \<times> 'v \<Rightarrow> string \<times> 'v \<Rightarrow> bool" where
  "local_or_decoded env w' old new \<longleftrightarrow>
     fst new = fst old \<and>
     (snd new = snd old \<or>
      (case kvs w' (BuildKey env (fst old)) of
         None \<Rightarrow> False
       | Some B \<Rightarrow> Unmarshal env B (snd old) = (snd new, None)))"

subsection \<open>A concrete deployment\<close>

text \<open>
  Configuration structures are strings here. The codec rejects the structure \<open>''chan''\<close>
  when serializing and the bytes \<open>''{''\<close> when deserializing. The store holds the control
  record \<open>ctl\<close> and the record \<open>share\<close> for the file \<open>share.yml\<close>; the requests whose
  positions are listed in \<open>down\<close> fail.
\<close>

definition example_env :: "string env" where
  "example_env =
     \<lparr>BuildKey = (\<lambda>name. ''/config/'' @ name),
      EnableConfigCenterKey = ''enable-config-center'',
      ETCDCONST = ''etcd'',
      LogConfigFileName = ''log.yml'',
      flag_conf = Inr ''/etc/chat'',
      flag_index = Inr 0,
      Load = (\<lambda>dir file s. (''local '' @ file, None)),
      LoadDiscovery = (\<lambda>dir. (\<lparr>Enable = ''etcd''\<rparr>, None)),
      NewDiscoveryRegister = (\<lambda>d. SvcDiscoveryRegistryImpl (Some Client)),
      Marshal = (\<lambda>s. if s = ''chan'' then Inl ''json: unsupported type'' else Inr s),
      Unmarshal = (\<lambda>b s. if b = ''{'' then (s, Some ''unexpected end of JSON input'')
                           else (b, None)),
      InitLoggerFromConfig = (\<lambda>p n l. None),
      InitConsoleLogger = (\<lambda>n l. None)\<rparr>"

definition example_world :: "string option \<Rightarrow> string option \<Rightarrow> nat list \<Rightarrow> world" where
  "example_world ctl share down =
     \<lparr>kvs = (\<lambda>k. if k = ''/config/enable-config-center'' then ctl
                 else if k = ''/config/share.yml'' then share else None),
      unavailable = (\<lambda>n. n \<in> set down), close_fails = False, trace = []\<rparr>"

definition example_root :: "string RootCmd" where
  "example_root =
     \<lparr>processName = ''chat'', port = 0, prometheusPort = 0, log = ''local log'',
      index = 0, configPath = [], etcdClient = Some Client\<rparr>"

definition example_opts :: "string \<Rightarrow> string CmdOpts" where
  "example_opts share =
     \<lparr>loggerPrefixName = ''openim-chat-log'',
      configMap = [(''share.yml'', share), (''chat.yml'', ''local chat'')]\<rparr>"

subsection \<open>A deployment with structures of two fields\<close>

text \<open>
  Configuration structures are pairs here: a field \<open>a\<close> and a field \<open>b\<close>, both strings. The
  decoder accepts two records and treats them as \<^verbatim>\<open>json.Unmarshal\<close> treats them on a
  structure of that shape: it assigns the fields that the record names and leaves the
  other fields of the structure it writes into as they are. \<open>record_a\<close> names the field \<open>a\<close>
  only; the record \<open>''{}''\<close> names no field. The store holds the control record "enable",
  the record \<open>share\<close> for \<open>share.yml\<close> and the record \<open>''{}''\<close> for \<open>log.yml\<close>; every request
  is answered.
\<close>

definition record_a :: string where
  "record_a = ''{\"a\":\"stored a\"}''"

definition fields_env :: "(string \<times> string) env" where
  "fields_env =
     \<lparr>BuildKey = (\<lambda>name. ''/config/'' @ name),
      EnableConfigCenterKey = ''enable-config-center'',
      ETCDCONST = ''etcd'',
      LogConfigFileName = ''log.yml'',
      flag_conf = Inr ''/etc/chat'',
      flag_index = Inr 0,
      Load = (\<lambda>dir file s. (s, None)),
      LoadDiscovery = (\<lambda>dir. (\<lparr>Enable = ''etcd''\<rparr>, None)),
      NewDiscoveryRegister = (\<lambda>d. SvcDiscoveryRegistryImpl (Some Client)),
      Marshal = (\<lambda>s. Inr (''{\"a\":\"'' @ fst s @ ''\",\"b\":\"'' @ snd s @ ''\"}'')),
      Unmarshal = (\<lambda>B s. if B = record_a then ((''stored a'', snd s), None)
                           else if B = ''{}'' then (s, None)
                           else (s, Some ''invalid character'')),
      InitLoggerFromConfig = (\<lambda>p n l. None),
      InitConsoleLogger = (\<lambda>n l. None)\<rparr>"

definition fields_world :: "string \<Rightarrow> world" where
  "fields_world share =
     \<lparr>kvs = (\<lambda>k. if k = ''/config/enable-config-center'' then Some ''enable''
                 else if k = ''/config/share.yml'' then Some share
                 else if k = ''/config/log.yml'' then Some ''{}'' else None),
      unavailable = (\<lambda>n. False), close_fails = False, trace = []\<rparr>"

definition fields_root :: "(string \<times> string) RootCmd" where
  "fields_root =
     \<lparr>processName = ''chat'', port = 0, prometheusPort = 0, log = (''info'', ''stdout''),
      index = 0, configPath = [], etcdClient = Some Client\<rparr>"

definition fields_opts :: "(string \<times> string) CmdOpts" where
  "fields_opts =
     \<lparr>loggerPrefixName = ''openim-chat-log'',
      configMap = [(''share.yml'', (''local a'', ''local b''))]\<rparr>"

lemmas example_defs = example_env_def example_world_def example_root_def example_opts_def
  entries_def reach_def mode_enabled_def control_key_def disetcd_Enable_def disetcd_Disable_def
  update_def etcd_Get_def etcd_Put_def record_event_def log_ZWarn_def Let_def

lemmas fields_defs = fields_env_def fields_world_def fields_root_def fields_opts_def record_a_def
  entries_def reach_def mode_enabled_def control_key_def disetcd_Enable_def disetcd_Disable_def
  update_def etcd_Get_def etcd_Put_def record_event_def log_ZWarn_def Let_def

section \<open>The store requests and the closure, case by case\<close>

lemma etcd_Get_failed:
  "unavailable w (length (trace w)) \<Longrightarrow>
   etcd_Get w key = (Inl (Lib ''etcd: get failed''), record_event w (EtcdGet key))"
  by (simp add: etcd_Get_def)

lemma etcd_Get_absent:
  "\<not> unavailable w (length (trace w)) \<Longrightarrow> kvs w key = None \<Longrightarrow>
   etcd_Get w key = (Inr \<lparr>Kvs = [], Count = 0\<rparr>, record_event w (EtcdGet key))"
  by (simp add: etcd_Get_def)

lemma etcd_Get_found:
  "\<not> unavailable w (length (trace w)) \<Longrightarrow> kvs w key = Some B \<Longrightarrow>
   etcd_Get w key =
     (Inr \<lparr>Kvs = [\<lparr>Key = key, Value = B\<rparr>], Count = 1\<rparr>, record_event w (EtcdGet key))"
  by (simp add: etcd_Get_def)

lemma update_get_failed:
  "unavailable w (length (trace w)) \<Longrightarrow>
   update env w n v =
     Return (None,
             log_ZWarn (record_event w (EtcdGet (BuildKey env n)))
               ''root cmd updateConfigFromEtcd, etcd Get err: %v'' (Wrap (Lib ''etcd: get failed'')),
             v)"
  by (simp add: update_def etcd_Get_failed)

lemma update_found:
  "\<not> unavailable w (length (trace w)) \<Longrightarrow> kvs w (BuildKey env n) = Some B \<Longrightarrow>
   update env w n v =
     (case Unmarshal env B v of
        (s', Some err) \<Rightarrow>
          Return (Some (WrapMsg (Lib err) ''failed to unmarshal config from etcd''),
                  record_event w (EtcdGet (BuildKey env n)), s')
      | (s', None) \<Rightarrow> Return (None, record_event w (EtcdGet (BuildKey env n)), s'))"
  by (simp add: update_def etcd_Get_found)

lemma update_absent:
  "\<not> unavailable w (length (trace w)) \<Longrightarrow> kvs w (BuildKey env n) = None \<Longrightarrow>
   update env w n v =
     (case Marshal env v of
        Inl err \<Rightarrow> Return (Some (Wrap (ErrArgs err)), record_event w (EtcdGet (BuildKey env n)), v)
      | Inr data \<Rightarrow>
          Return (None,
                  (if unavailable w (Suc (length (trace w)))
                   then w\<lparr>trace := trace w @
                          [EtcdGet (BuildKey env n), EtcdPut (BuildKey env n) data,
                           ZWarn ''root cmd updateConfigFromEtcd, etcd Put err: %v''
                             (Wrap (Lib ''etcd: put failed''))]\<rparr>
                   else w\<lparr>trace := trace w @
                          [EtcdGet (BuildKey env n), EtcdPut (BuildKey env n) data],
                          kvs := (kvs w)(BuildKey env n \<mapsto> data)\<rparr>),
                  v))"
  by (simp add: update_def etcd_Get_absent etcd_Put_def record_event_def log_ZWarn_def
      split: sum.splits)

section \<open>The loop over the entries\<close>

lemma update_not_Panic: "update env w n v \<noteq> Panic"
  by (simp add: update_def etcd_Get_def etcd_Put_def Let_def split: option.splits sum.splits prod.splits)

lemma update_range_not_Panic: "update_range env w xs \<noteq> Panic"
proof (induction xs arbitrary: w)
  case Nil
  show ?case by simp
next
  case (Cons x xs)
  obtain n v where x: "x = (n, v)" by (cases x)
  show ?case
    using Cons update_not_Panic [of env w n v]
    by (auto simp: x split: exit.splits option.splits)
qed

lemma update_range_names:
  "update_range env w xs = Return (e, w', xs') \<Longrightarrow> map fst xs' = map fst xs"
proof (induction xs arbitrary: w e w' xs')
  case Nil
  then show ?case by simp
next
  case (Cons x xs)
  obtain n v where x: "x = (n, v)" by (cases x)
  from Cons.prems show ?case
    using Cons.IH by (fastforce simp: x split: exit.splits option.splits)
qed

lemma update_range_append:
  "update_range env w (xs @ ys) =
     (case update_range env w xs of
        Panic \<Rightarrow> Panic
      | Return (Some err, w', xs') \<Rightarrow> Return (Some err, w', xs' @ ys)
      | Return (None, w', xs') \<Rightarrow>
          (case update_range env w' ys of
             Panic \<Rightarrow> Panic
           | Return (e, w'', ys') \<Rightarrow> Return (e, w'', xs' @ ys')))"
proof (induction xs arbitrary: w)
  case Nil
  show ?case by (simp split: exit.splits)
next
  case (Cons x xs)
  obtain n v where x: "x = (n, v)" by (cases x)
  show ?case
    by (simp add: x Cons.IH split: exit.splits option.splits)
qed

lemma run_enabled:
  assumes "mode_enabled env w r"
  shows "updateConfigFromEtcd env w r opts =
           (case update_range env (record_event w (EtcdGet (control_key env))) (entries env r opts) of
              Panic \<Rightarrow> Panic
            | Return (e, w2, es) \<Rightarrow>
                Return (e, w2, r\<lparr>log := snd (last es)\<rparr>, opts\<lparr>configMap := butlast es\<rparr>))"
  using assms
  by (auto simp: mode_enabled_def updateConfigFromEtcd_def etcd_Get_def control_key_def
      entries_def update_range_append disetcd_Enable_def disetcd_Disable_def
      split: exit.splits option.splits)

lemma entries_rebuild:
  assumes "map fst es = map fst (entries env r opts)"
  shows "entries env (r\<lparr>log := snd (last es)\<rparr>) (opts\<lparr>configMap := butlast es\<rparr>) = es"
proof -
  from assms have ne: "es \<noteq> []" by (auto simp: entries_def)
  from assms have "map fst es = map fst (configMap opts) @ [LogConfigFileName env]"
    by (simp add: entries_def)
  then have "last (map fst es) = LogConfigFileName env" by simp
  with ne have "fst (last es) = LogConfigFileName env" by (simp add: last_map)
  then have "(LogConfigFileName env, snd (last es)) = last es" by (cases "last es") simp
  with ne show ?thesis by (simp add: entries_def)
qed

lemma run_entries:
  assumes "mode_enabled env w r"
  shows "\<exists>e w' r' opts'.
           updateConfigFromEtcd env w r opts = Return (e, w', r', opts') \<and>
           update_range env (record_event w (EtcdGet (control_key env))) (entries env r opts) =
             Return (e, w', entries env r' opts')"
proof -
  let ?w0 = "record_event w (EtcdGet (control_key env))"
  obtain e w' es where ur: "update_range env ?w0 (entries env r opts) = Return (e, w', es)"
    using update_range_not_Panic [of env ?w0 "entries env r opts"]
    by (cases "update_range env ?w0 (entries env r opts)") auto
  from update_range_names [OF ur] have "entries env (r\<lparr>log := snd (last es)\<rparr>) (opts\<lparr>configMap := butlast es\<rparr>) = es"
    by (rule entries_rebuild)
  with ur run_enabled [OF assms, of opts] show ?thesis by simp
qed

lemma update_range_length:
  "update_range env w xs = Return (e, w', xs') \<Longrightarrow> length xs' = length xs"
  using update_range_names [of env w xs e w' xs'] map_eq_imp_length_eq by blast

lemma at_entry:
  assumes k: "k < length (entries env r opts)"
    and nth: "entries env r opts ! k = (n, v)"
    and reach: "reach env w r opts k = Some (w1, before)"
  shows "mode_enabled env w r"
    and "length before = k"
    and "update_range env (record_event w (EtcdGet (control_key env))) (entries env r opts) =
           (case update env w1 n v of
              Panic \<Rightarrow> Panic
            | Return (Some err, w2, v') \<Rightarrow>
                Return (Some err, w2, before @ (n, v') # drop (Suc k) (entries env r opts))
            | Return (None, w2, v') \<Rightarrow>
                (case update_range env w2 (drop (Suc k) (entries env r opts)) of
                   Panic \<Rightarrow> Panic
                 | Return (e, w3, rest') \<Rightarrow> Return (e, w3, before @ (n, v') # rest')))"
proof -
  let ?es = "entries env r opts"
  let ?w0 = "record_event w (EtcdGet (control_key env))"
  from reach show en: "mode_enabled env w r"
    by (simp add: reach_def split: if_splits)
  from reach en have pre: "update_range env ?w0 (take k ?es) = Return (None, w1, before)"
    by (auto simp: reach_def split: exit.splits option.splits)
  from update_range_length [OF pre] k show "length before = k" by simp
  from k nth have split: "?es = take k ?es @ ((n, v) # drop (Suc k) ?es)"
    by (metis id_take_nth_drop)
  have "update_range env ?w0 ?es = update_range env ?w0 (take k ?es @ ((n, v) # drop (Suc k) ?es))"
    using split by simp
  also have "\<dots> = (case update env w1 n v of
              Panic \<Rightarrow> Panic
            | Return (Some err, w2, v') \<Rightarrow>
                Return (Some err, w2, before @ (n, v') # drop (Suc k) ?es)
            | Return (None, w2, v') \<Rightarrow>
                (case update_range env w2 (drop (Suc k) ?es) of
                   Panic \<Rightarrow> Panic
                 | Return (e, w3, rest') \<Rightarrow> Return (e, w3, before @ (n, v') # rest')))"
    by (simp add: update_range_append pre split: exit.splits option.splits)
  finally show "update_range env ?w0 ?es = (case update env w1 n v of
              Panic \<Rightarrow> Panic
            | Return (Some err, w2, v') \<Rightarrow>
                Return (Some err, w2, before @ (n, v') # drop (Suc k) ?es)
            | Return (None, w2, v') \<Rightarrow>
                (case update_range env w2 (drop (Suc k) ?es) of
                   Panic \<Rightarrow> Panic
                 | Return (e, w3, rest') \<Rightarrow> Return (e, w3, before @ (n, v') # rest')))" .
qed

text \<open>What the run returns when the k-th entry's update returns an error.\<close>

lemma run_entry_aborts:
  assumes k: "k < length (entries env r opts)"
    and nth: "entries env r opts ! k = (n, v)"
    and reach: "reach env w r opts k = Some (w1, before)"
    and upd: "update env w1 n v = Return (Some err, w2, v')"
  shows "\<exists>r' opts'. updateConfigFromEtcd env w r opts = Return (Some err, w2, r', opts') \<and>
           entries env r' opts' = before @ (n, v') # drop (Suc k) (entries env r opts)"
  using run_entries [OF at_entry(1) [OF k nth reach], of opts] at_entry(3) [OF k nth reach] upd
  by auto

lemma run_entry_continues:
  assumes k: "k < length (entries env r opts)"
    and nth: "entries env r opts ! k = (n, v)"
    and reach: "reach env w r opts k = Some (w1, before)"
    and upd: "update env w1 n v = Return (None, w2, v')"
  shows "\<exists>e w' rest' r' opts'.
           update_range env w2 (drop (Suc k) (entries env r opts)) = Return (e, w', rest') \<and>
           updateConfigFromEtcd env w r opts = Return (e, w', r', opts') \<and>
           entries env r' opts' = before @ (n, v') # rest'"
proof -
  let ?rest = "drop (Suc k) (entries env r opts)"
  obtain e w' rest' where rest: "update_range env w2 ?rest = Return (e, w', rest')"
    using update_range_not_Panic [of env w2 ?rest]
    by (cases "update_range env w2 ?rest") auto
  with run_entries [OF at_entry(1) [OF k nth reach], of opts] at_entry(3) [OF k nth reach] upd
  show ?thesis by auto
qed

section \<open>The store only grows\<close>

lemma update_kvs_mono:
  "update env w n v = Return (e, w', v') \<Longrightarrow> kvs w \<subseteq>\<^sub>m kvs w'"
  by (auto simp: update_def etcd_Get_def etcd_Put_def record_event_def log_ZWarn_def Let_def
      map_le_def split: if_splits option.splits sum.splits prod.splits list.splits)

lemma update_range_kvs_mono:
  "update_range env w xs = Return (e, w', xs') \<Longrightarrow> kvs w \<subseteq>\<^sub>m kvs w'"
proof (induction xs arbitrary: w e w' xs')
  case Nil
  then show ?case by simp
next
  case (Cons x xs)
  obtain n v where x: "x = (n, v)" by (cases x)
  from Cons.prems show ?case
    using Cons.IH update_kvs_mono [of env w n v]
    by (fastforce simp: x split: exit.splits option.splits intro: map_le_trans)
qed

lemma update_local_or_decoded:
  "update env w n v = Return (None, w', v') \<Longrightarrow> local_or_decoded env w' (n, v) (n, v')"
  by (auto simp: update_def etcd_Get_def etcd_Put_def record_event_def log_ZWarn_def Let_def
      local_or_decoded_def split: if_splits option.splits sum.splits prod.splits list.splits)

lemma local_or_decoded_mono:
  "kvs w \<subseteq>\<^sub>m kvs w' \<Longrightarrow> local_or_decoded env w old new \<Longrightarrow> local_or_decoded env w' old new"
  by (auto simp: local_or_decoded_def map_le_def dom_def split: option.splits)

lemma local_or_decoded_refl: "local_or_decoded env w x x"
  by (simp add: local_or_decoded_def)

lemma update_range_local_or_decoded:
  "update_range env w xs = Return (None, w', xs') \<Longrightarrow>
   list_all2 (local_or_decoded env w') xs xs'"
proof (induction xs arbitrary: w w' xs')
  case Nil
  then show ?case by simp
next
  case (Cons x xs)
  obtain n v where x: "x = (n, v)" by (cases x)
  from Cons.prems obtain w1 v1 rest' where
    head: "update env w n v = Return (None, w1, v1)" and
    tail: "update_range env w1 xs = Return (None, w', rest')" and
    xs': "xs' = (n, v1) # rest'"
    by (auto simp: x split: exit.splits option.splits)
  from update_local_or_decoded [OF head] update_range_kvs_mono [OF tail]
  have "local_or_decoded env w' (n, v) (n, v1)" by (blast intro: local_or_decoded_mono)
  with Cons.IH [OF tail] show ?case by (simp add: x xs')
qed

lemma run_not_enabled:
  "\<not> mode_enabled env w r \<Longrightarrow> updateConfigFromEtcd env w r opts = Return (e, w', r', opts') \<Longrightarrow>
   r' = r \<and> opts' = opts"
  by (auto simp: mode_enabled_def updateConfigFromEtcd_def etcd_Get_def control_key_def
      split: if_splits option.splits list.splits)

section \<open>The local load keeps the client pointer\<close>

lemma initializeConfiguration_client:
  "initializeConfiguration env r opts = (e, r2, opts2) \<Longrightarrow> etcdClient r2 = etcdClient r"
  by (auto simp: initializeConfiguration_def getFlag_def Let_def
      split: sum.splits prod.splits option.splits)

section \<open>The properties of reconciliation\<close>

text \<open>
  Claim C1. As stated the claim fails: a stored record is deserialized into the structure
  that the local load has filled, and the fields that the record does not name keep their
  local values. Here the store holds \<open>record_a\<close> for \<open>share.yml\<close>, the local structure is
  \<open>(''local a'', ''local b'')\<close>, and after a reconciliation that returns nil the entry holds
  \<open>(''stored a'', ''local b'')\<close>: the stored field \<open>a\<close> beside the local field \<open>b\<close>. That is
  neither the local structure nor what the record alone deserializes to (into an empty
  structure it gives \<open>(''stored a'', [])\<close>).
\<close>

theorem half_merged_counterexample:
  "updateConfigFromEtcd fields_env (fields_world record_a) fields_root fields_opts =
     Return (None,
             (fields_world record_a)
               \<lparr>trace := [EtcdGet ''/config/enable-config-center'', EtcdGet ''/config/share.yml'',
                          EtcdGet ''/config/log.yml'']\<rparr>,
             fields_root,
             fields_opts\<lparr>configMap := [(''share.yml'', (''stored a'', ''local b''))]\<rparr>)
   \<and> configMap fields_opts = [(''share.yml'', (''local a'', ''local b''))]
   \<and> Unmarshal fields_env record_a ([], []) = ((''stored a'', []), None)
   \<and> (''stored a'', ''local b'') \<noteq> (''local a'', ''local b'')
   \<and> (''stored a'', ''local b'') \<noteq> (''stored a'', [])"
  by (simp add: updateConfigFromEtcd_def fields_defs)

text \<open>
  Claim C1, amended. After a reconciliation that returns nil, every entry of the config
  map and the logging entry keeps its name and holds either the structure that was loaded
  locally, untouched, or the structure that results from deserializing, without error,
  the bytes that the store holds under the entry's key into the locally loaded structure.
  For an entry the deserialization has run once and to its end or not at all; which
  fields of the local structure survive it is decided by the stored record. This covers
  the runs that never reach the entries (no client, mode Disabled), where every entry is
  unchanged.
\<close>

theorem local_or_decoded_after_success:
  assumes "updateConfigFromEtcd env w r opts = Return (None, w', r', opts')"
  shows "list_all2 (local_or_decoded env w') (entries env r opts) (entries env r' opts')"
proof (cases "mode_enabled env w r")
  case True
  from run_entries [OF True, of opts] assms
  have "update_range env (record_event w (EtcdGet (control_key env))) (entries env r opts) =
          Return (None, w', entries env r' opts')"
    by auto
  then show ?thesis by (rule update_range_local_or_decoded)
next
  case False
  from run_not_enabled [OF False assms] show ?thesis
    by (simp add: list_all2_same local_or_decoded_refl)
qed

text \<open>The theorem at a concrete deployment, with its hypotheses discharged.\<close>

theorem local_or_decoded_after_success_witness:
  "list_all2
     (local_or_decoded fields_env
        ((fields_world record_a)
           \<lparr>trace := [EtcdGet ''/config/enable-config-center'', EtcdGet ''/config/share.yml'',
                      EtcdGet ''/config/log.yml'']\<rparr>))
     [(''share.yml'', (''local a'', ''local b'')), (''log.yml'', (''info'', ''stdout''))]
     [(''share.yml'', (''stored a'', ''local b'')), (''log.yml'', (''info'', ''stdout''))]"
proof -
  let ?w = "fields_world record_a"
  let ?w' = "?w\<lparr>trace := [EtcdGet ''/config/enable-config-center'', EtcdGet ''/config/share.yml'',
                      EtcdGet ''/config/log.yml'']\<rparr>"
  let ?o' = "fields_opts\<lparr>configMap := [(''share.yml'', (''stored a'', ''local b''))]\<rparr>"
  have run: "updateConfigFromEtcd fields_env ?w fields_root fields_opts =
               Return (None, ?w', fields_root, ?o')"
    by (simp add: updateConfigFromEtcd_def fields_defs)
  have es: "entries fields_env fields_root fields_opts =
              [(''share.yml'', (''local a'', ''local b'')), (''log.yml'', (''info'', ''stdout''))]"
    "entries fields_env fields_root ?o' =
              [(''share.yml'', (''stored a'', ''local b'')), (''log.yml'', (''info'', ''stdout''))]"
    by (simp_all add: entries_def fields_opts_def fields_root_def fields_env_def)
  from local_or_decoded_after_success [OF run] show ?thesis
    unfolding es .
qed

text \<open>
  Claim C2. When there is a client and the mode resolves to Disabled (the request for the control
  key fails, the control key is absent, or its value is the literal "disable"),
  reconciliation returns nil, the root command and the options (hence every entry) are
  unchanged, and the only request sent to the store is the one for the control key: no
  get or put for an entry is issued. The failed request is also logged as a warning.
\<close>

theorem disabled_is_noop:
  assumes "etcdClient r = Some c"
    and "unavailable w (length (trace w))
         \<or> kvs w (control_key env) = None
         \<or> kvs w (control_key env) = Some disetcd_Disable"
  shows "updateConfigFromEtcd env w r opts =
           Return (None,
                   w\<lparr>trace := trace w @ EtcdGet (control_key env) #
                      (if unavailable w (length (trace w))
                       then [ZWarn ''root cmd updateConfigFromEtcd, etcd Get EnableConfigCenterKey err: %v''
                               (Wrap (Lib ''etcd: get failed''))]
                       else [])\<rparr>,
                   r, opts)"
  using assms
  by (auto simp: updateConfigFromEtcd_def etcd_Get_def record_event_def log_ZWarn_def
      control_key_def)

text \<open>The theorem at a concrete deployment, with its hypotheses discharged.\<close>

theorem disabled_is_noop_witness:
  "updateConfigFromEtcd example_env (example_world (Some ''disable'') (Some ''stored share'') [])
       example_root (example_opts ''local share'') =
     Return (None,
             (example_world (Some ''disable'') (Some ''stored share'') [])
               \<lparr>trace := [EtcdGet ''/config/enable-config-center'']\<rparr>,
             example_root, example_opts ''local share'')
   \<and> updateConfigFromEtcd example_env (example_world None (Some ''stored share'') [])
       example_root (example_opts ''local share'') =
     Return (None,
             (example_world None (Some ''stored share'') [])
               \<lparr>trace := [EtcdGet ''/config/enable-config-center'']\<rparr>,
             example_root, example_opts ''local share'')
   \<and> updateConfigFromEtcd example_env (example_world (Some ''enable'') (Some ''stored share'') [0])
       example_root (example_opts ''local share'') =
     Return (None,
             (example_world (Some ''enable'') (Some ''stored share'') [0])
               \<lparr>trace := [EtcdGet ''/config/enable-config-center'',
                          ZWarn ''root cmd updateConfigFromEtcd, etcd Get EnableConfigCenterKey err: %v''
                            (Wrap (Lib ''etcd: get failed''))]\<rparr>,
             example_root, example_opts ''local share'')"
proof -
  let ?wd = "example_world (Some ''disable'') (Some ''stored share'') []"
  let ?wa = "example_world None (Some ''stored share'') []"
  let ?wu = "example_world (Some ''enable'') (Some ''stored share'') [0]"
  have c: "etcdClient example_root = Some Client" by (simp add: example_root_def)
  have ck: "control_key example_env = ''/config/enable-config-center''"
    by (simp add: control_key_def example_env_def)
  have d: "unavailable ?wd (length (trace ?wd)) \<or> kvs ?wd (control_key example_env) = None
           \<or> kvs ?wd (control_key example_env) = Some disetcd_Disable"
    by (simp add: ck example_world_def disetcd_Disable_def)
  have a: "unavailable ?wa (length (trace ?wa)) \<or> kvs ?wa (control_key example_env) = None
           \<or> kvs ?wa (control_key example_env) = Some disetcd_Disable"
    by (simp add: ck example_world_def)
  have u: "unavailable ?wu (length (trace ?wu)) \<or> kvs ?wu (control_key example_env) = None
           \<or> kvs ?wu (control_key example_env) = Some disetcd_Disable"
    by (simp add: example_world_def)
  have t: "trace ?wd = []" "trace ?wa = []" "trace ?wu = []"
    "\<not> unavailable ?wd 0" "\<not> unavailable ?wa 0" "unavailable ?wu 0"
    by (simp_all add: example_world_def)
  from disabled_is_noop [OF c d, of "example_opts ''local share''"]
    disabled_is_noop [OF c a, of "example_opts ''local share''"]
    disabled_is_noop [OF c u, of "example_opts ''local share''"]
  show ?thesis by (simp add: ck t)
qed

text \<open>
  Claim C3. When the store answers with a control value that is neither "enable" nor "disable",
  reconciliation returns the error "unknown EnableConfigCenter value", after the single
  request for the control key, with the root command and the options (hence every entry)
  unchanged.
\<close>

theorem unknown_mode_aborts:
  assumes "etcdClient r = Some c"
    and "\<not> unavailable w (length (trace w))"
    and "kvs w (control_key env) = Some x"
    and "x \<noteq> disetcd_Enable" and "x \<noteq> disetcd_Disable"
  shows "updateConfigFromEtcd env w r opts =
           Return (Some (Wrap (New ''unknown EnableConfigCenter value'')),
                   w\<lparr>trace := trace w @ [EtcdGet (control_key env)]\<rparr>, r, opts)"
  using assms
  by (simp add: updateConfigFromEtcd_def etcd_Get_def record_event_def control_key_def)

text \<open>The theorem at a concrete deployment, with its hypotheses discharged.\<close>

theorem unknown_mode_aborts_witness:
  "updateConfigFromEtcd example_env (example_world (Some ''maybe'') None []) example_root
       (example_opts ''local share'') =
     Return (Some (Wrap (New ''unknown EnableConfigCenter value'')),
             (example_world (Some ''maybe'') None [])
               \<lparr>trace := [EtcdGet ''/config/enable-config-center'']\<rparr>,
             example_root, example_opts ''local share'')"
proof -
  let ?w = "example_world (Some ''maybe'') None []"
  have 1: "etcdClient example_root = Some Client" by (simp add: example_root_def)
  have 2: "\<not> unavailable ?w (length (trace ?w))" by (simp add: example_world_def)
  have 3: "kvs ?w (control_key example_env) = Some ''maybe''"
    by (simp add: example_world_def example_env_def control_key_def)
  have 4: "''maybe'' \<noteq> disetcd_Enable" "''maybe'' \<noteq> disetcd_Disable"
    by (simp_all add: disetcd_Enable_def disetcd_Disable_def)
  have 5: "trace ?w = []" "control_key example_env = ''/config/enable-config-center''"
    by (simp_all add: example_world_def example_env_def control_key_def)
  from unknown_mode_aborts [OF 1 2 3 4, of "example_opts ''local share''"] show ?thesis
    by (simp add: 5)
qed

text \<open>
  Claim C4. As stated the claim fails: the value the entry ends with is not what the
  stored bytes deserialize to, replacing what was loaded, but what the decoder leaves in
  the locally loaded structure. Here the store holds the valid record \<open>''{}''\<close> for
  \<open>share.yml\<close>, which on its own deserializes to the empty structure; reconciliation
  returns nil and the entry still holds its local structure \<open>(''local a'', ''local b'')\<close>.
\<close>

theorem local_kept_counterexample:
  "updateConfigFromEtcd fields_env (fields_world ''{}'') fields_root fields_opts =
     Return (None,
             (fields_world ''{}'')
               \<lparr>trace := [EtcdGet ''/config/enable-config-center'', EtcdGet ''/config/share.yml'',
                          EtcdGet ''/config/log.yml'']\<rparr>,
             fields_root, fields_opts)
   \<and> kvs (fields_world ''{}'') (BuildKey fields_env ''share.yml'') = Some ''{}''
   \<and> configMap fields_opts = [(''share.yml'', (''local a'', ''local b''))]
   \<and> Unmarshal fields_env ''{}'' ([], []) = (([], []), None)
   \<and> (''local a'', ''local b'') \<noteq> ([], [])"
  by (simp add: updateConfigFromEtcd_def fields_defs)

text \<open>
  Claim C4, amended. Mode Enabled, and reconciliation reaches the \<open>k\<close>-th entry \<open>(n, v)\<close> in
  world \<open>w1\<close>. If the store answers and holds bytes \<open>B\<close> under the entry's key, and \<open>B\<close>
  deserializes into the entry's local structure \<open>v\<close> without error, leaving \<open>v'\<close>, then the
  closure sends the one get and no put, leaves the store as it is and returns nil with the
  structure \<open>v'\<close>; the loop goes on with the entries after the \<open>k\<close>-th in the world \<open>w2\<close> so
  reached, what they return is what reconciliation returns, and the \<open>k\<close>-th entry holds
  \<open>v'\<close>. So the requests of the run for this entry are the one get, and the value is the
  local structure as the decoder has rewritten it: the fields that \<open>B\<close> sets are replaced,
  the others keep their local values.
\<close>

theorem stored_record_decoded:
  assumes "k < length (entries env r opts)"
    and "entries env r opts ! k = (n, v)"
    and "reach env w r opts k = Some (w1, before)"
    and "\<not> unavailable w1 (length (trace w1))"
    and "kvs w1 (BuildKey env n) = Some B"
    and "Unmarshal env B v = (v', None)"
  shows "\<exists>w2. w2 = w1\<lparr>trace := trace w1 @ [EtcdGet (BuildKey env n)]\<rparr> \<and>
           update env w1 n v = Return (None, w2, v') \<and>
           (\<exists>e w' rest' r' opts'.
              update_range env w2 (drop (Suc k) (entries env r opts)) = Return (e, w', rest') \<and>
              updateConfigFromEtcd env w r opts = Return (e, w', r', opts') \<and>
              entries env r' opts' = before @ (n, v') # rest')"
proof -
  let ?w2 = "w1\<lparr>trace := trace w1 @ [EtcdGet (BuildKey env n)]\<rparr>"
  from assms(4-6) have upd: "update env w1 n v = Return (None, ?w2, v')"
    by (simp add: update_found record_event_def)
  from run_entry_continues [OF assms(1-3) upd] upd show ?thesis by simp
qed

text \<open>The theorem at a concrete deployment, with its hypotheses discharged.\<close>

theorem stored_record_decoded_witness:
  "\<exists>w2. w2 = (fields_world record_a)
                \<lparr>trace := [EtcdGet ''/config/enable-config-center'', EtcdGet ''/config/share.yml'']\<rparr> \<and>
     update fields_env
       ((fields_world record_a)\<lparr>trace := [EtcdGet ''/config/enable-config-center'']\<rparr>)
       ''share.yml'' (''local a'', ''local b'') = Return (None, w2, (''stored a'', ''local b'')) \<and>
     (\<exists>e w' rest' r' opts'.
        update_range fields_env w2 [(''log.yml'', (''info'', ''stdout''))] = Return (e, w', rest') \<and>
        updateConfigFromEtcd fields_env (fields_world record_a) fields_root fields_opts =
          Return (e, w', r', opts') \<and>
        entries fields_env r' opts' = (''share.yml'', (''stored a'', ''local b'')) # rest')"
proof -
  let ?w = "fields_world record_a"
  let ?w1 = "?w\<lparr>trace := [EtcdGet ''/config/enable-config-center'']\<rparr>"
  have 1: "0 < length (entries fields_env fields_root fields_opts)" by (simp add: entries_def)
  have 2: "entries fields_env fields_root fields_opts ! 0 = (''share.yml'', (''local a'', ''local b''))"
    by (simp add: entries_def fields_opts_def)
  have 3: "reach fields_env ?w fields_root fields_opts 0 = Some (?w1, [])"
    by (simp add: fields_defs)
  have 4: "\<not> unavailable ?w1 (length (trace ?w1))" by (simp add: fields_world_def)
  have 5: "kvs ?w1 (BuildKey fields_env ''share.yml'') = Some record_a"
    by (simp add: fields_world_def fields_env_def)
  have 6: "Unmarshal fields_env record_a (''local a'', ''local b'') = ((''stored a'', ''local b''), None)"
    by (simp add: fields_env_def)
  have 7: "BuildKey fields_env ''share.yml'' = ''/config/share.yml''"
    "trace ?w1 = [EtcdGet ''/config/enable-config-center'']"
    "drop (Suc 0) (entries fields_env fields_root fields_opts) = [(''log.yml'', (''info'', ''stdout''))]"
    by (simp_all add: fields_env_def fields_world_def entries_def fields_opts_def fields_root_def)
  from stored_record_decoded [OF 1 2 3 4 5 6] show ?thesis
    unfolding 7 by (simp del: update_range.simps)
qed




text \<open>
  Claim C6. Mode Enabled, and reconciliation reaches the \<open>k\<close>-th entry \<open>(n, v)\<close> in world \<open>w1\<close>. If
  the store answers and holds bytes \<open>B\<close> under the entry's key, and deserializing \<open>B\<close> into
  the entry's structure fails with \<open>err\<close>, then reconciliation returns that error, wrapped
  with "failed to unmarshal config from etcd", right after the get; the entries after the
  \<open>k\<close>-th are not processed.
\<close>

theorem corrupt_record_aborts:
  assumes "k < length (entries env r opts)"
    and "entries env r opts ! k = (n, v)"
    and "reach env w r opts k = Some (w1, before)"
    and "\<not> unavailable w1 (length (trace w1))"
    and "kvs w1 (BuildKey env n) = Some B"
    and "Unmarshal env B v = (v', Some err)"
  shows "\<exists>r' opts'.
           updateConfigFromEtcd env w r opts =
             Return (Some (WrapMsg (Lib err) ''failed to unmarshal config from etcd''),
                     w1\<lparr>trace := trace w1 @ [EtcdGet (BuildKey env n)]\<rparr>, r', opts') \<and>
           entries env r' opts' = before @ (n, v') # drop (Suc k) (entries env r opts)"
proof -
  from assms(4-6)
  have "update env w1 n v =
          Return (Some (WrapMsg (Lib err) ''failed to unmarshal config from etcd''),
                  w1\<lparr>trace := trace w1 @ [EtcdGet (BuildKey env n)]\<rparr>, v')"
    by (simp add: update_found record_event_def)
  from run_entry_aborts [OF assms(1-3) this] show ?thesis .
qed

text \<open>The theorem at a concrete deployment, with its hypotheses discharged.\<close>

theorem corrupt_record_aborts_witness:
  "\<exists>r' opts'.
     updateConfigFromEtcd example_env (example_world (Some ''enable'') (Some ''{'') [])
         example_root (example_opts ''local share'') =
       Return (Some (WrapMsg (Lib ''unexpected end of JSON input'')
                       ''failed to unmarshal config from etcd''),
               (example_world (Some ''enable'') (Some ''{'') [])
                 \<lparr>trace := [EtcdGet ''/config/enable-config-center'', EtcdGet ''/config/share.yml'']\<rparr>,
               r', opts') \<and>
     entries example_env r' opts' =
       [(''share.yml'', ''local share''), (''chat.yml'', ''local chat''), (''log.yml'', ''local log'')]"
proof -
  let ?w = "example_world (Some ''enable'') (Some ''{'') []"
  let ?w1 = "?w\<lparr>trace := [EtcdGet ''/config/enable-config-center'']\<rparr>"
  let ?o = "example_opts ''local share''"
  have 1: "0 < length (entries example_env example_root ?o)" by (simp add: entries_def)
  have 2: "entries example_env example_root ?o ! 0 = (''share.yml'', ''local share'')"
    by (simp add: entries_def example_opts_def)
  have 3: "reach example_env ?w example_root ?o 0 = Some (?w1, [])"
    by (simp add: example_defs)
  have 4: "\<not> unavailable ?w1 (length (trace ?w1))" by (simp add: example_world_def)
  have 5: "kvs ?w1 (BuildKey example_env ''share.yml'') = Some ''{''"
    by (simp add: example_world_def example_env_def)
  have 6: "Unmarshal example_env ''{'' ''local share'' =
             (''local share'', Some ''unexpected end of JSON input'')"
    by (simp add: example_env_def)
  have 7: "BuildKey example_env ''share.yml'' = ''/config/share.yml''"
    "trace ?w1 = [EtcdGet ''/config/enable-config-center'']"
    "drop (Suc 0) (entries example_env example_root ?o) =
       [(''chat.yml'', ''local chat''), (''log.yml'', ''local log'')]"
    by (simp_all add: example_env_def example_world_def entries_def example_opts_def
        example_root_def)
  from corrupt_record_aborts [OF 1 2 3 4 5 6] show ?thesis
    unfolding 7 by simp
qed

text \<open>
  Claim C7. As stated the claim fails: the seeding operation includes the serialization of the local
  structure, and when that fails the closure returns the error, which aborts
  reconciliation and reaches the caller. Here the structure \<open>''chan''\<close> of \<open>share.yml\<close> does not
  serialize, the store holds no record for it, and reconciliation returns an argument
  error.
\<close>

theorem seed_failure_counterexample:
  "updateConfigFromEtcd example_env (example_world (Some ''enable'') None []) example_root
       (example_opts ''chan'') =
     Return (Some (Wrap (ErrArgs ''json: unsupported type'')),
             (example_world (Some ''enable'') None [])
               \<lparr>trace := [EtcdGet ''/config/enable-config-center'', EtcdGet ''/config/share.yml'']\<rparr>,
             example_root, example_opts ''chan'')"
  by (simp add: updateConfigFromEtcd_def example_defs)

text \<open>
  Claim C7, amended. Mode Enabled, and reconciliation reaches the \<open>k\<close>-th entry \<open>(n, v)\<close> in
  world \<open>w1\<close>, where the store answers and holds no record under the entry's key. If the
  local structure does not serialize, reconciliation returns an argument error carrying
  the serializer's message, with no put issued and the entry unchanged. If it serializes
  and the put fails, the failure is logged as a warning, the closure returns nil with the
  structure unchanged, and the loop goes on with the entries after the \<open>k\<close>-th: what they
  return is what reconciliation returns.
\<close>

theorem seed_failure_handling:
  assumes "k < length (entries env r opts)"
    and "entries env r opts ! k = (n, v)"
    and "reach env w r opts k = Some (w1, before)"
    and "\<not> unavailable w1 (length (trace w1))"
    and "kvs w1 (BuildKey env n) = None"
  shows "case Marshal env v of
           Inl msg \<Rightarrow>
             (\<exists>r' opts'.
                updateConfigFromEtcd env w r opts =
                  Return (Some (Wrap (ErrArgs msg)),
                          w1\<lparr>trace := trace w1 @ [EtcdGet (BuildKey env n)]\<rparr>, r', opts') \<and>
                entries env r' opts' = before @ (n, v) # drop (Suc k) (entries env r opts))
         | Inr data \<Rightarrow>
             unavailable w1 (Suc (length (trace w1))) \<longrightarrow>
             (\<exists>w2. w2 = w1\<lparr>trace := trace w1 @
                           [EtcdGet (BuildKey env n), EtcdPut (BuildKey env n) data,
                            ZWarn ''root cmd updateConfigFromEtcd, etcd Put err: %v''
                              (Wrap (Lib ''etcd: put failed''))]\<rparr> \<and>
                update env w1 n v = Return (None, w2, v) \<and>
                (\<exists>e w' rest' r' opts'.
                   update_range env w2 (drop (Suc k) (entries env r opts)) = Return (e, w', rest') \<and>
                   updateConfigFromEtcd env w r opts = Return (e, w', r', opts') \<and>
                   entries env r' opts' = before @ (n, v) # rest'))"
proof (cases "Marshal env v")
  case (Inl msg)
  with assms(4,5)
  have "update env w1 n v =
          Return (Some (Wrap (ErrArgs msg)), w1\<lparr>trace := trace w1 @ [EtcdGet (BuildKey env n)]\<rparr>, v)"
    by (simp add: update_absent record_event_def)
  from run_entry_aborts [OF assms(1-3) this] Inl show ?thesis by simp
next
  case (Inr data)
  show ?thesis
  proof (cases "unavailable w1 (Suc (length (trace w1)))")
    case False
    with Inr show ?thesis by simp
  next
    case True
    let ?w2 = "w1\<lparr>trace := trace w1 @
                           [EtcdGet (BuildKey env n), EtcdPut (BuildKey env n) data,
                            ZWarn ''root cmd updateConfigFromEtcd, etcd Put err: %v''
                              (Wrap (Lib ''etcd: put failed''))]\<rparr>"
    from True Inr assms(4,5) have upd: "update env w1 n v = Return (None, ?w2, v)"
      by (simp add: update_absent)
    from run_entry_continues [OF assms(1-3) upd] upd Inr show ?thesis by simp
  qed
qed

text \<open>The theorem at a concrete deployment, with its hypotheses discharged.\<close>

theorem seed_failure_handling_witness:
  "(\<exists>r' opts'.
      updateConfigFromEtcd example_env (example_world (Some ''enable'') None []) example_root
          (example_opts ''chan'') =
        Return (Some (Wrap (ErrArgs ''json: unsupported type'')),
                (example_world (Some ''enable'') None [])
                  \<lparr>trace := [EtcdGet ''/config/enable-config-center'', EtcdGet ''/config/share.yml'']\<rparr>,
                r', opts') \<and>
      entries example_env r' opts' =
        [(''share.yml'', ''chan''), (''chat.yml'', ''local chat''), (''log.yml'', ''local log'')])
   \<and> (\<exists>w2. w2 = (example_world (Some ''enable'') (Some ''stored share'') [3])
                    \<lparr>trace := [EtcdGet ''/config/enable-config-center'', EtcdGet ''/config/share.yml'',
                               EtcdGet ''/config/chat.yml'',
                               EtcdPut ''/config/chat.yml'' ''local chat'',
                               ZWarn ''root cmd updateConfigFromEtcd, etcd Put err: %v''
                                 (Wrap (Lib ''etcd: put failed''))]\<rparr> \<and>
          update example_env
            ((example_world (Some ''enable'') (Some ''stored share'') [3])
               \<lparr>trace := [EtcdGet ''/config/enable-config-center'', EtcdGet ''/config/share.yml'']\<rparr>)
            ''chat.yml'' ''local chat'' = Return (None, w2, ''local chat'') \<and>
          (\<exists>e w' rest' r' opts'.
             update_range example_env w2 [(''log.yml'', ''local log'')] = Return (e, w', rest') \<and>
             updateConfigFromEtcd example_env
               (example_world (Some ''enable'') (Some ''stored share'') [3]) example_root
               (example_opts ''local share'') = Return (e, w', r', opts') \<and>
             entries example_env r' opts' =
               (''share.yml'', ''stored share'') # (''chat.yml'', ''local chat'') # rest'))"
proof -
  let ?wa = "example_world (Some ''enable'') None []"
  let ?wa1 = "?wa\<lparr>trace := [EtcdGet ''/config/enable-config-center'']\<rparr>"
  let ?oa = "example_opts ''chan''"
  let ?wb = "example_world (Some ''enable'') (Some ''stored share'') [3]"
  let ?wb1 = "?wb\<lparr>trace := [EtcdGet ''/config/enable-config-center'', EtcdGet ''/config/share.yml'']\<rparr>"
  let ?ob = "example_opts ''local share''"
  have a1: "0 < length (entries example_env example_root ?oa)" by (simp add: entries_def)
  have a2: "entries example_env example_root ?oa ! 0 = (''share.yml'', ''chan'')"
    by (simp add: entries_def example_opts_def)
  have a3: "reach example_env ?wa example_root ?oa 0 = Some (?wa1, [])"
    by (simp add: example_defs)
  have a4: "\<not> unavailable ?wa1 (length (trace ?wa1))" by (simp add: example_world_def)
  have a5: "kvs ?wa1 (BuildKey example_env ''share.yml'') = None"
    by (simp add: example_world_def example_env_def)
  have a6: "Marshal example_env ''chan'' = Inl ''json: unsupported type''"
    "BuildKey example_env ''share.yml'' = ''/config/share.yml''"
    "trace ?wa1 = [EtcdGet ''/config/enable-config-center'']"
    "drop (Suc 0) (entries example_env example_root ?oa) =
       [(''chat.yml'', ''local chat''), (''log.yml'', ''local log'')]"
    by (simp_all add: example_env_def example_world_def entries_def example_opts_def
        example_root_def)
  have b1: "1 < length (entries example_env example_root ?ob)"
    by (simp add: entries_def example_opts_def)
  have b2: "entries example_env example_root ?ob ! 1 = (''chat.yml'', ''local chat'')"
    by (simp add: entries_def example_opts_def)
  have b3: "reach example_env ?wb example_root ?ob 1 =
              Some (?wb1, [(''share.yml'', ''stored share'')])"
    by (simp add: example_defs)
  have b4: "\<not> unavailable ?wb1 (length (trace ?wb1))" by (simp add: example_world_def)
  have b5: "kvs ?wb1 (BuildKey example_env ''chat.yml'') = None"
    by (simp add: example_world_def example_env_def)
  have b6: "Marshal example_env ''local chat'' = Inr ''local chat''"
    "BuildKey example_env ''chat.yml'' = ''/config/chat.yml''"
    "trace ?wb1 = [EtcdGet ''/config/enable-config-center'', EtcdGet ''/config/share.yml'']"
    "unavailable ?wb (Suc (Suc (Suc 0)))"
    "drop (Suc (Suc 0)) (entries example_env example_root ?ob) = [(''log.yml'', ''local log'')]"
    by (simp_all add: example_env_def example_world_def entries_def example_opts_def
        example_root_def)
  from seed_failure_handling [OF a1 a2 a3 a4 a5] seed_failure_handling [OF b1 b2 b3 b4 b5]
  show ?thesis by (simp add: a6 b6 del: update_range.simps)
qed

text \<open>
  Claim C8. Mode Enabled, and reconciliation reaches the \<open>k\<close>-th entry \<open>(n, v)\<close> in world \<open>w1\<close>. If
  the get for the entry's key fails, the failure is logged as a warning, the closure
  returns nil with the structure unchanged, and the loop goes on with the entries after
  the \<open>k\<close>-th in the world \<open>w2\<close> so reached: what they return is what reconciliation returns,
  and the \<open>k\<close>-th entry still holds its local structure \<open>v\<close>.
\<close>

theorem get_error_skips_entry:
  assumes "k < length (entries env r opts)"
    and "entries env r opts ! k = (n, v)"
    and "reach env w r opts k = Some (w1, before)"
    and "unavailable w1 (length (trace w1))"
  shows "\<exists>w2. w2 = w1\<lparr>trace := trace w1 @
                     [EtcdGet (BuildKey env n),
                      ZWarn ''root cmd updateConfigFromEtcd, etcd Get err: %v''
                        (Wrap (Lib ''etcd: get failed''))]\<rparr> \<and>
           update env w1 n v = Return (None, w2, v) \<and>
           (\<exists>e w' rest' r' opts'.
              update_range env w2 (drop (Suc k) (entries env r opts)) = Return (e, w', rest') \<and>
              updateConfigFromEtcd env w r opts = Return (e, w', r', opts') \<and>
              entries env r' opts' = before @ (n, v) # rest')"
proof -
  let ?w2 = "w1\<lparr>trace := trace w1 @
                     [EtcdGet (BuildKey env n),
                      ZWarn ''root cmd updateConfigFromEtcd, etcd Get err: %v''
                        (Wrap (Lib ''etcd: get failed''))]\<rparr>"
  from assms(4) have upd: "update env w1 n v = Return (None, ?w2, v)"
    by (simp add: update_get_failed record_event_def log_ZWarn_def)
  from run_entry_continues [OF assms(1-3) upd] upd show ?thesis by simp
qed

text \<open>The theorem at a concrete deployment, with its hypotheses discharged.\<close>

theorem get_error_skips_entry_witness:
  "\<exists>w2. w2 = (example_world (Some ''enable'') (Some ''stored share'') [1])
                \<lparr>trace := [EtcdGet ''/config/enable-config-center'', EtcdGet ''/config/share.yml'',
                           ZWarn ''root cmd updateConfigFromEtcd, etcd Get err: %v''
                             (Wrap (Lib ''etcd: get failed''))]\<rparr> \<and>
     update example_env
       ((example_world (Some ''enable'') (Some ''stored share'') [1])
          \<lparr>trace := [EtcdGet ''/config/enable-config-center'']\<rparr>)
       ''share.yml'' ''local share'' = Return (None, w2, ''local share'') \<and>
     (\<exists>e w' rest' r' opts'.
        update_range example_env w2 [(''chat.yml'', ''local chat''), (''log.yml'', ''local log'')] =
          Return (e, w', rest') \<and>
        updateConfigFromEtcd example_env (example_world (Some ''enable'') (Some ''stored share'') [1])
          example_root (example_opts ''local share'') = Return (e, w', r', opts') \<and>
        entries example_env r' opts' = (''share.yml'', ''local share'') # rest')"
proof -
  let ?w = "example_world (Some ''enable'') (Some ''stored share'') [1]"
  let ?w1 = "?w\<lparr>trace := [EtcdGet ''/config/enable-config-center'']\<rparr>"
  let ?o = "example_opts ''local share''"
  have 1: "0 < length (entries example_env example_root ?o)" by (simp add: entries_def)
  have 2: "entries example_env example_root ?o ! 0 = (''share.yml'', ''local share'')"
    by (simp add: entries_def example_opts_def)
  have 3: "reach example_env ?w example_root ?o 0 = Some (?w1, [])"
    by (simp add: example_defs)
  have 4: "unavailable ?w1 (length (trace ?w1))" by (simp add: example_world_def)
  have 7: "BuildKey example_env ''share.yml'' = ''/config/share.yml''"
    "trace ?w1 = [EtcdGet ''/config/enable-config-center'']"
    "drop (Suc 0) (entries example_env example_root ?o) =
       [(''chat.yml'', ''local chat''), (''log.yml'', ''local log'')]"
    by (simp_all add: example_env_def example_world_def entries_def example_opts_def
        example_root_def)
  from get_error_skips_entry [OF 1 2 3 4] show ?thesis
    unfolding 7 by simp
qed

section \<open>The properties of the bootstrap orchestration\<close>

text \<open>
  Claim C9. The code does not do what the claim says: \<open>persistentPreRun\<close> closes the client
  in its last step, on the path where every step has returned nil, and each of the four
  earlier error checks returns before that step. Here \<open>initEtcd\<close> acquires the client, the
  control key holds "maybe", reconciliation returns the unknown-value error, and
  \<open>persistentPreRun\<close> returns it to its caller with the client still held and no close in
  the trace.
\<close>

theorem close_skipped_on_error_return:
  "persistentPreRun example_env (example_world (Some ''maybe'') None []) (NewRootCmd [] ''chat'')
       [WithConfigMap [(''share.yml'', [])]] =
     Return (Some (Wrap (New ''unknown EnableConfigCenter value'')),
             (example_world (Some ''maybe'') None [])
               \<lparr>trace := [EtcdGet ''/config/enable-config-center'']\<rparr>,
             (NewRootCmd [] ''chat'')
               \<lparr>log := ''local log.yml'', configPath := ''/etc/chat'', etcdClient := Some Client\<rparr>,
             \<lparr>loggerPrefixName = ''openim-chat-log'',
              configMap = [(''share.yml'', ''local share.yml'')]\<rparr>)
   \<and> EtcdClose \<notin> set (trace ((example_world (Some ''maybe'') None [])
                               \<lparr>trace := [EtcdGet ''/config/enable-config-center'']\<rparr>))"
  by (simp add: persistentPreRun_def initEtcd_def getFlag_def initializeConfiguration_def
      applyOptions_def defaultCmdOpts_def WithConfigMap_def NewRootCmd_def
      updateConfigFromEtcd_def example_defs)

text \<open>
  Claim C10. Start from a root command whose client pointer is nil (as \<open>NewRootCmd\<close> builds
  it), with flags that parse and a discovery configuration that loads and does not select
  etcd. Then \<open>initEtcd\<close> returns nil and leaves the pointer nil; after the local load
  reconciliation returns nil at once, with the world untouched (no request to the store);
  and \<open>persistentPreRun\<close> returns the error of the local load or of the logger
  initialization if there is one, and otherwise panics in the call of \<^verbatim>\<open>Close\<close> through the
  nil pointer. It never returns nil.
\<close>

theorem nil_client_bootstrap_panics:
  assumes "etcdClient r = None"
    and "flag_conf env = Inr dir" and "flag_index env = Inr i"
    and "LoadDiscovery env dir = (disConfig, None)"
    and "Enable disConfig \<noteq> ETCDCONST env"
  shows "initEtcd env r = Return (None, r\<lparr>index := i\<rparr>) \<and>
         (case initializeConfiguration env (r\<lparr>index := i\<rparr>) (applyOptions fs) of
            (e, r2, opts2) \<Rightarrow>
              etcdClient r2 = None \<and>
              updateConfigFromEtcd env w r2 opts2 = Return (None, w, r2, opts2) \<and>
              persistentPreRun env w r fs =
                (case e of
                   Some err \<Rightarrow> Return (Some err, w, r2, opts2)
                 | None \<Rightarrow>
                     (case initializeLogger env r2 opts2 of
                        Some err \<Rightarrow>
                          Return (Some (WrapMsg err ''failed to initialize logger''), w, r2, opts2)
                      | None \<Rightarrow> Panic))) \<and>
         (\<forall>w' r' opts'. persistentPreRun env w r fs \<noteq> Return (None, w', r', opts'))"
proof -
  from assms have ie: "initEtcd env r = Return (None, r\<lparr>index := i\<rparr>)"
    by (simp add: initEtcd_def getFlag_def)
  obtain e r2 opts2 where
    ic: "initializeConfiguration env (r\<lparr>index := i\<rparr>) (applyOptions fs) = (e, r2, opts2)"
    by (cases "initializeConfiguration env (r\<lparr>index := i\<rparr>) (applyOptions fs)")
  from initializeConfiguration_client [OF ic] assms(1) have nil: "etcdClient r2 = None" by simp
  then have run: "updateConfigFromEtcd env w r2 opts2 = Return (None, w, r2, opts2)"
    by (simp add: updateConfigFromEtcd_def)
  have ppr: "persistentPreRun env w r fs =
                (case e of
                   Some err \<Rightarrow> Return (Some err, w, r2, opts2)
                 | None \<Rightarrow>
                     (case initializeLogger env r2 opts2 of
                        Some err \<Rightarrow>
                          Return (Some (WrapMsg err ''failed to initialize logger''), w, r2, opts2)
                      | None \<Rightarrow> Panic))"
    by (simp add: persistentPreRun_def ie ic run nil etcd_Close_def split: option.splits)
  have "\<forall>w' r' opts'. persistentPreRun env w r fs \<noteq> Return (None, w', r', opts')"
    by (simp add: ppr split: option.splits)
  with ie ic nil run ppr show ?thesis by simp
qed

text \<open>The theorem at a concrete deployment, with its hypotheses discharged.\<close>

theorem nil_client_bootstrap_panics_witness:
  "initEtcd (example_env\<lparr>LoadDiscovery := (\<lambda>dir. (\<lparr>Enable = ''kubernetes''\<rparr>, None))\<rparr>)
       (NewRootCmd [] ''chat'') = Return (None, NewRootCmd [] ''chat'')
   \<and> persistentPreRun (example_env\<lparr>LoadDiscovery := (\<lambda>dir. (\<lparr>Enable = ''kubernetes''\<rparr>, None))\<rparr>)
       (example_world (Some ''enable'') None []) (NewRootCmd [] ''chat'')
       [WithConfigMap [(''share.yml'', [])]] = Panic"
proof -
  let ?env = "example_env\<lparr>LoadDiscovery := (\<lambda>dir. (\<lparr>Enable = ''kubernetes''\<rparr>, None))\<rparr>"
  let ?r = "NewRootCmd [] ''chat'' :: string RootCmd"
  let ?w = "example_world (Some ''enable'') None []"
  let ?fs = "[WithConfigMap [(''share.yml'', [])]] :: (string CmdOpts \<Rightarrow> string CmdOpts) list"
  have 1: "etcdClient ?r = None" by (simp add: NewRootCmd_def)
  have 2: "flag_conf ?env = Inr ''/etc/chat''" "flag_index ?env = Inr 0"
    by (simp_all add: example_env_def)
  have 3: "LoadDiscovery ?env ''/etc/chat'' = (\<lparr>Enable = ''kubernetes''\<rparr>, None)"
    by (simp add: example_env_def)
  have 4: "Enable \<lparr>Enable = ''kubernetes''\<rparr> \<noteq> ETCDCONST ?env" by (simp add: example_env_def)
  have 5: "?r\<lparr>index := 0\<rparr> = ?r" by (simp add: NewRootCmd_def)
  have 6: "initializeConfiguration ?env ?r (applyOptions ?fs) =
             (None, ?r\<lparr>log := ''local log.yml'', configPath := ''/etc/chat''\<rparr>,
              \<lparr>loggerPrefixName = ''openim-chat-log'',
               configMap = [(''share.yml'', ''local share.yml'')]\<rparr>)"
    by (simp add: initializeConfiguration_def getFlag_def applyOptions_def defaultCmdOpts_def
        WithConfigMap_def NewRootCmd_def example_env_def)
  have 7: "initializeLogger ?env (?r\<lparr>log := ''local log.yml'', configPath := ''/etc/chat''\<rparr>)
             \<lparr>loggerPrefixName = ''openim-chat-log'',
               configMap = [(''share.yml'', ''local share.yml'')]\<rparr> = None"
    by (simp add: initializeLogger_def errs_Wrap_def example_env_def)
  from nil_client_bootstrap_panics [OF 1 2 3 4, of ?w ?fs] show ?thesis
    by (simp add: 5 6 7)
qed

end
